theory Spec2Isabelle
  imports Complex_Main "HOL-Library.Sublist"
begin

section \<open>The Sync-One2 session layer (Python/Sync\_One2.py)\<close>

text \<open>
  The class \<^verbatim>\<open>SyncOne2\<close> drives one instrument over a serial line. A session object
  holds the port name, the flag \<^verbatim>\<open>__in_API\<close> and, once opened, the pyserial port
  \<^verbatim>\<open>__com_port\<close>. The embedding keeps the object and the port it owns in one record and
  passes it through every method. Every method returns the record it leaves behind together
  with either the value it returns or the exception it raises.

  The serial line is seen from the library's side. The field \<open>rx\<close> lists, in order, what
  the successive calls of \<^verbatim>\<open>read_until(b'\r')\<close> will deliver, as text: a line with its
  carriage return, or whatever arrived before the read timeout. When the list is used up a
  read times out with nothing. Text is Python's \<^verbatim>\<open>str\<close> after \<^verbatim>\<open>decode()\<close>: a list
  of characters, each standing for the code point of its number, so the model covers
  every reply whose code points are below 256 (all of ASCII and Latin-1). A byte sequence
  that \<^verbatim>\<open>decode()\<close> rejects, and text with code points from 256 on, are outside it.
  The field \<open>trace\<close> records every call made on the port, in order.
\<close>

subsection \<open>Values, exceptions, the session record\<close>

text \<open>A Python \<^verbatim>\<open>float\<close> is an IEEE binary64 number: \<open>Finite x\<close> for a number \<open>x\<close>
  that a double holds (\<open>Finite 0\<close> is \<^verbatim>\<open>0.0\<close>), \<open>NegZero\<close> for \<^verbatim>\<open>-0.0\<close>,
  \<open>Infinite neg\<close> for the two infinities, \<open>NaN\<close>.\<close>

datatype pyfloat = Finite real | NegZero | Infinite bool | NaN

datatype pyval =
    PStr string
  | PInt int
  | PFloat pyfloat
  | PBool bool
  | PNone
  | PList "pyval list"

datatype error =
    AttributeError
  | PortNotOpenError
  | ValueError
  | IndexError
  | TypeError
  | OverflowError

datatype event =
    EvOpen bool
  | EvResetInput
  | EvWrite string
  | EvRead nat
  | EvSetTimeout nat
  | EvClose

record session =
  serial_port :: string
  in_API :: bool
  has_port :: bool
  port_open :: bool
  timeout :: nat
  can_open :: bool
  rx :: "string list"
  trace :: "event list"

type_synonym 'a result = "(error + 'a) \<times> session"

text \<open>\<^verbatim>\<open>__init__\<close>: no port object yet, not in API mode. The last two arguments are the
  environment: whether the named port can be opened, and what the instrument will send.\<close>

definition init :: "string \<Rightarrow> bool \<Rightarrow> string list \<Rightarrow> session" where
  "init name openable incoming =
     \<lparr> serial_port = name, in_API = False, has_port = False, port_open = False,
       timeout = 0, can_open = openable, rx = incoming, trace = [] \<rparr>"

text \<open>Sequencing: an exception ends the method and keeps the state reached so far.\<close>

definition return_ok :: "'a \<Rightarrow> session \<Rightarrow> 'a result" where
  "return_ok v s = (Inr v, s)"

definition raise :: "error \<Rightarrow> session \<Rightarrow> 'a result" where
  "raise e s = (Inl e, s)"

definition bind :: "(session \<Rightarrow> 'a result) \<Rightarrow> ('a \<Rightarrow> session \<Rightarrow> 'b result) \<Rightarrow> session \<Rightarrow> 'b result" where
  "bind m f s = (case m s of (Inl e, s') \<Rightarrow> (Inl e, s') | (Inr v, s') \<Rightarrow> f v s')"

definition bind_e :: "error + 'a \<Rightarrow> ('a \<Rightarrow> error + 'b) \<Rightarrow> error + 'b" where
  "bind_e m f = (case m of Inl e \<Rightarrow> Inl e | Inr v \<Rightarrow> f v)"

subsection \<open>Python's string operations\<close>

text \<open>\<^verbatim>\<open>t in s\<close> on strings: \<open>t\<close> occurs in \<open>s\<close> as a contiguous piece.\<close>

fun str_in :: "string \<Rightarrow> string \<Rightarrow> bool" where
  "str_in t [] = (t = [])"
| "str_in t (c # cs) = (prefix t (c # cs) \<or> str_in t cs)"

text \<open>\<^verbatim>\<open>s.split(",")\<close>: never empty; the empty string gives one empty field.\<close>

fun split_comma :: "string \<Rightarrow> string list" where
  "split_comma [] = [[]]"
| "split_comma (c # cs) =
     (if c = CHR '','' then [] # split_comma cs
      else (case split_comma cs of f # fs \<Rightarrow> (c # f) # fs | [] \<Rightarrow> [[c]]))"

text \<open>White space as \<^verbatim>\<open>int()\<close> and \<^verbatim>\<open>float()\<close> strip it from both ends of the text:
  blank, tab, line feed, vertical tab, form feed, carriage return. Before that, in text
  that is not all ASCII, both builtins turn the Unicode spaces into blanks; below 256
  these are \<^verbatim>\<open>\x85\<close> and \<^verbatim>\<open>\xa0\<close>. Every other character from 127 on makes the
  conversion fail, as it does here: it is no digit, sign, point or letter of a number.\<close>

definition is_space :: "char \<Rightarrow> bool" where
  "is_space c = (c \<in> set [CHR '' '', CHR 0x09, CHR 0x0A, CHR 0x0B, CHR 0x0C, CHR 0x0D])"

definition to_ascii :: "char \<Rightarrow> char" where
  "to_ascii c = (if c = CHR 0x85 \<or> c = CHR 0xA0 then CHR '' '' else c)"

definition strip :: "string \<Rightarrow> string" where
  "strip s = rev (dropWhile is_space (rev (dropWhile is_space s)))"

definition is_digit :: "char \<Rightarrow> bool" where
  "is_digit c = (c \<in> set ''0123456789'')"

definition digit_val :: "char \<Rightarrow> nat" where
  "digit_val c = of_char c - 48"

text \<open>A digit part: digits, with single underscores allowed between two digits. The
  result is the number read and how many digits it has.\<close>

fun digits_from :: "nat \<Rightarrow> nat \<Rightarrow> string \<Rightarrow> (nat \<times> nat) option" where
  "digits_from acc n [] = Some (acc, n)"
| "digits_from acc n [c] =
     (if is_digit c then Some (acc * 10 + digit_val c, Suc n) else None)"
| "digits_from acc n (c # d # ds) =
     (if is_digit c then digits_from (acc * 10 + digit_val c) (Suc n) (d # ds)
      else if c = CHR ''_'' \<and> is_digit d then digits_from (acc * 10 + digit_val d) (Suc n) ds
      else None)"

definition digitpart :: "string \<Rightarrow> (nat \<times> nat) option" where
  "digitpart s =
     (case s of [] \<Rightarrow> None
      | c # cs \<Rightarrow> if is_digit c then digits_from (digit_val c) 1 cs else None)"

text \<open>An optional sign in front: whether it is a minus, and the rest.\<close>

definition split_sign :: "string \<Rightarrow> bool \<times> string" where
  "split_sign s =
     (case s of [] \<Rightarrow> (False, [])
      | c # cs \<Rightarrow> if c = CHR ''-'' then (True, cs)
                 else if c = CHR ''+'' then (False, cs) else (False, c # cs))"

text \<open>\<^verbatim>\<open>int(s)\<close> for a string \<open>s\<close>, base ten; \<open>None\<close> is the \<^verbatim>\<open>ValueError\<close>.
  CPython (3.11, and the later releases of the older versions) also refuses a number of
  more than 4300 digits, its default limit, with a \<^verbatim>\<open>ValueError\<close>.\<close>

definition py_int :: "string \<Rightarrow> int option" where
  "py_int s =
     (case split_sign (strip (map to_ascii s)) of (neg, u) \<Rightarrow>
        (case digitpart u of None \<Rightarrow> None
         | Some (v, n) \<Rightarrow>
             if 4300 < n then None else Some (if neg then - int v else int v)))"

text \<open>\<^verbatim>\<open>float(s)\<close> for a string \<open>s\<close>: white space stripped, an optional sign, then
  \<^verbatim>\<open>inf\<close>, \<^verbatim>\<open>infinity\<close> or \<^verbatim>\<open>nan\<close> in any letter case, or a decimal number with an
  optional fraction and exponent. The decimal is read exactly, as digits \<open>d\<close> and a power
  of ten \<open>e\<close> for the number \<open>d * 10 ^ e\<close>, and then rounded to the nearest double.\<close>

definition to_lower :: "char \<Rightarrow> char" where
  "to_lower c =
     (case map_of (zip ''ABCDEFGHIJKLMNOPQRSTUVWXYZ'' ''abcdefghijklmnopqrstuvwxyz'') c of
        Some d \<Rightarrow> d | None \<Rightarrow> c)"

definition is_exp_mark :: "char \<Rightarrow> bool" where
  "is_exp_mark c = (c = CHR ''e'' \<or> c = CHR ''E'')"

text \<open>The mantissa \<^verbatim>\<open>[digitpart] "." digitpart | digitpart ["."]\<close>: all its digits as
  one number, and how many of them stand after the point.\<close>

definition mantissa :: "string \<Rightarrow> (nat \<times> nat) option" where
  "mantissa m =
     (let ip = takeWhile (\<lambda>c. c \<noteq> CHR ''.'') m;
          rest = dropWhile (\<lambda>c. c \<noteq> CHR ''.'') m
      in case rest of
           [] \<Rightarrow> (case digitpart ip of None \<Rightarrow> None | Some (v, _) \<Rightarrow> Some (v, 0))
         | _ # fp \<Rightarrow>
             (if ip = [] then digitpart fp
              else
                (case digitpart ip of None \<Rightarrow> None
                 | Some (v, _) \<Rightarrow>
                     if fp = [] then Some (v, 0)
                     else (case digitpart fp of None \<Rightarrow> None
                           | Some (w, k) \<Rightarrow> Some (v * 10 ^ k + w, k)))))"

text \<open>The exponent \<^verbatim>\<open>("e" | "E") [sign] digitpart\<close>.\<close>

definition exponent :: "string \<Rightarrow> int option" where
  "exponent e =
     (case split_sign e of (neg, u) \<Rightarrow>
        (case digitpart u of None \<Rightarrow> None
         | Some (v, _) \<Rightarrow> Some (if neg then - int v else int v)))"

definition floatnumber :: "string \<Rightarrow> (nat \<times> int) option" where
  "floatnumber u =
     (let m = takeWhile (\<lambda>c. \<not> is_exp_mark c) u;
          rest = dropWhile (\<lambda>c. \<not> is_exp_mark c) u
      in case mantissa m of None \<Rightarrow> None
         | Some (d, k) \<Rightarrow>
             (case rest of [] \<Rightarrow> Some (d, - int k)
              | _ # e \<Rightarrow> (case exponent e of None \<Rightarrow> None | Some x \<Rightarrow> Some (d, x - int k))))"

text \<open>Rounding the fraction \<open>num / den\<close> (\<open>den > 0\<close>) to binary64, to nearest with ties
  to even. \<open>floor_log2\<close> is the binary exponent of the fraction; below \<open>-1022\<close> the
  number is subnormal and the spacing of the doubles stays \<open>2 ^ -1074\<close>. The doubles
  around the fraction are the multiples of \<open>2 ^ q\<close>, and the nearest multiple is found by
  a division that rounds half to even. From \<open>2 ^ 1024\<close> on the result is infinite
  (\<open>None\<close>).\<close>

fun bit_length :: "nat \<Rightarrow> nat" where
  "bit_length n = (if n = 0 then 0 else Suc (bit_length (n div 2)))"

declare bit_length.simps [simp del]

definition floor_log2 :: "nat \<Rightarrow> nat \<Rightarrow> int" where
  "floor_log2 num den =
     (let c = int (bit_length num) - int (bit_length den)
      in if den * 2 ^ nat c \<le> num * 2 ^ nat (- c) then c else c - 1)"

definition div_half_even :: "nat \<Rightarrow> nat \<Rightarrow> nat" where
  "div_half_even n d =
     (let q = n div d; r = n mod d
      in if 2 * r < d then q else if d < 2 * r then q + 1 else if even q then q else q + 1)"

definition round_double :: "nat \<Rightarrow> nat \<Rightarrow> real option" where
  "round_double num den =
     (if num = 0 then Some 0
      else let e = max (floor_log2 num den) (- 1022);
               q = e - 52;
               n = div_half_even (num * 2 ^ nat (- q)) (den * 2 ^ nat q)
           in if 1023 < e \<or> (e = 1023 \<and> 2 ^ 53 \<le> n) then None
              else Some (if 0 \<le> q then real (n * 2 ^ nat q) else real n / 2 ^ nat (- q)))"

definition decimal_to_double :: "bool \<Rightarrow> nat \<Rightarrow> int \<Rightarrow> pyfloat" where
  "decimal_to_double neg d e =
     (case (if 0 \<le> e then round_double (d * 10 ^ nat e) 1 else round_double d (10 ^ nat (- e))) of
        None \<Rightarrow> Infinite neg
      | Some x \<Rightarrow> if neg then (if x = 0 then NegZero else Finite (- x)) else Finite x)"

definition py_float :: "string \<Rightarrow> pyfloat option" where
  "py_float s =
     (case split_sign (strip (map to_ascii s)) of (neg, u) \<Rightarrow>
        if map to_lower u = ''inf'' \<or> map to_lower u = ''infinity'' then Some (Infinite neg)
        else if map to_lower u = ''nan'' then Some NaN
        else (case floatnumber u of None \<Rightarrow> None
              | Some (d, e) \<Rightarrow> Some (decimal_to_double neg d e)))"

subsection \<open>The builtins \<^verbatim>\<open>int\<close> and \<^verbatim>\<open>float\<close>, list items\<close>

definition int_py :: "pyval \<Rightarrow> error + pyval" where
  "int_py v =
     (case v of
        PStr t \<Rightarrow> (case py_int t of None \<Rightarrow> Inl ValueError | Some n \<Rightarrow> Inr (PInt n))
      | PInt n \<Rightarrow> Inr (PInt n)
      | PBool b \<Rightarrow> Inr (PInt (if b then 1 else 0))
      | PFloat (Finite x) \<Rightarrow> Inr (PInt (if x < 0 then \<lceil>x\<rceil> else \<lfloor>x\<rfloor>))
      | PFloat NegZero \<Rightarrow> Inr (PInt 0)
      | PFloat (Infinite _) \<Rightarrow> Inl OverflowError
      | PFloat NaN \<Rightarrow> Inl ValueError
      | PNone \<Rightarrow> Inl TypeError
      | PList _ \<Rightarrow> Inl TypeError)"

definition float_py :: "pyval \<Rightarrow> error + pyval" where
  "float_py v =
     (case v of
        PStr t \<Rightarrow> (case py_float t of None \<Rightarrow> Inl ValueError | Some x \<Rightarrow> Inr (PFloat x))
      | PInt n \<Rightarrow>
          (case round_double (nat \<bar>n\<bar>) 1 of None \<Rightarrow> Inl OverflowError
           | Some x \<Rightarrow> Inr (PFloat (Finite (if n < 0 then - x else x))))
      | PBool b \<Rightarrow> Inr (PFloat (Finite (if b then 1 else 0)))
      | PFloat x \<Rightarrow> Inr (PFloat x)
      | PNone \<Rightarrow> Inl TypeError
      | PList _ \<Rightarrow> Inl TypeError)"

text \<open>\<^verbatim>\<open>xs[i]\<close> and \<^verbatim>\<open>xs[i] = v\<close> for an index \<open>i \<ge> 0\<close>.\<close>

definition get_item :: "pyval list \<Rightarrow> nat \<Rightarrow> error + pyval" where
  "get_item xs i = (if i < length xs then Inr (xs ! i) else Inl IndexError)"

definition set_item :: "pyval list \<Rightarrow> nat \<Rightarrow> pyval \<Rightarrow> error + pyval list" where
  "set_item xs i v = (if i < length xs then Inr (xs[i := v]) else Inl IndexError)"

text \<open>The statement \<^verbatim>\<open>xs[i] = conv(xs[i])\<close>.\<close>

definition convert_item :: "(pyval \<Rightarrow> error + pyval) \<Rightarrow> nat \<Rightarrow> pyval list \<Rightarrow> error + pyval list" where
  "convert_item conv i xs = bind_e (get_item xs i) (\<lambda>v. bind_e (conv v) (\<lambda>w. set_item xs i w))"

subsection \<open>The port (pyserial)\<close>

definition log :: "event \<Rightarrow> session \<Rightarrow> session" where
  "log ev s = s\<lparr>trace := trace s @ [ev]\<rparr>"

text \<open>Any use of \<^verbatim>\<open>self.__com_port\<close> before a port was opened is an
  \<^verbatim>\<open>AttributeError\<close>; reading, writing or resetting a closed port is a
  \<^verbatim>\<open>PortNotOpenError\<close>.\<close>

definition port_write :: "string \<Rightarrow> session \<Rightarrow> unit result" where
  "port_write d s =
     (if \<not> has_port s then raise AttributeError s
      else if \<not> port_open s then raise PortNotOpenError s
      else return_ok () (log (EvWrite d) s))"

definition port_read_until :: "session \<Rightarrow> string result" where
  "port_read_until s =
     (if \<not> has_port s then raise AttributeError s
      else if \<not> port_open s then raise PortNotOpenError s
      else (case rx s of
              [] \<Rightarrow> return_ok [] (log (EvRead (timeout s)) s)
            | l # ls \<Rightarrow> return_ok l (log (EvRead (timeout s)) (s\<lparr>rx := ls\<rparr>))))"

definition port_set_timeout :: "nat \<Rightarrow> session \<Rightarrow> unit result" where
  "port_set_timeout n s =
     (if \<not> has_port s then raise AttributeError s
      else return_ok () (log (EvSetTimeout n) (s\<lparr>timeout := n\<rparr>)))"

subsection \<open>The private methods\<close>

text \<open>\<^verbatim>\<open>__open_port\<close>: a \<^verbatim>\<open>SerialException\<close> is caught and gives \<open>False\<close>; the port
  attribute then keeps what it had. Otherwise the new port is open with read timeout 1
  and its input buffer is reset.\<close>

definition open_port :: "session \<Rightarrow> bool result" where
  "open_port s =
     (if \<not> can_open s then return_ok False (log (EvOpen False) s)
      else return_ok True
             (log EvResetInput
               (log (EvOpen True) (s\<lparr>has_port := True, port_open := True, timeout := 1\<rparr>))))"


definition parse_line :: "string \<Rightarrow> string" where
  "parse_line line_data = filter (\<lambda>c. c \<noteq> CHR 0x0D) line_data"

definition get_reply :: "session \<Rightarrow> string result" where
  "get_reply = bind port_read_until (\<lambda>reply. return_ok (parse_line reply))"

definition send_command :: "string \<Rightarrow> session \<Rightarrow> unit result" where
  "send_command string = port_write (string @ [CHR 0x0D])"

text \<open>\<^verbatim>\<open>__wait_for_string\<close>: one read before the loop; the loop reads again while the
  string is not in the last reply, and gives up on an empty reply.\<close>

function wait_loop :: "string \<Rightarrow> string \<Rightarrow> session \<Rightarrow> bool result" where
  "wait_loop string reply s =
     (if str_in string reply then return_ok True s
      else (case get_reply s of
              (Inl e, s') \<Rightarrow> (Inl e, s')
            | (Inr reply', s') \<Rightarrow>
                if reply' = [] then return_ok False s' else wait_loop string reply' s'))"
  by pat_completeness auto
termination
  apply (relation "measure (\<lambda>(string, reply, s). length (rx s))")
   apply simp
  apply (auto simp: get_reply_def bind_def port_read_until_def return_ok_def raise_def log_def
      parse_line_def split: if_splits list.splits)
  done

definition wait_for_string :: "string \<Rightarrow> session \<Rightarrow> bool result" where
  "wait_for_string string = bind get_reply (\<lambda>reply. wait_loop string reply)"

definition commmand_and_reply :: "string \<Rightarrow> session \<Rightarrow> string result" where
  "commmand_and_reply cmd_string = bind (send_command cmd_string) (\<lambda>_. get_reply)"

subsection \<open>The public methods\<close>

text \<open>An exception raised while a value is computed leaves the session as it is.\<close>

definition lift_e :: "error + 'a \<Rightarrow> session \<Rightarrow> 'a result" where
  "lift_e r s = (case r of Inl e \<Rightarrow> raise e s | Inr v \<Rightarrow> return_ok v s)"

definition set_in_API :: "bool \<Rightarrow> session \<Rightarrow> unit result" where
  "set_in_API b s = return_ok () (s\<lparr>in_API := b\<rparr>)"

text \<open>A run of statements \<^verbatim>\<open>xs[i] = conv(xs[i])\<close>, in order.\<close>

fun convert_items :: "((pyval \<Rightarrow> error + pyval) \<times> nat) list \<Rightarrow> pyval list \<Rightarrow> error + pyval list" where
  "convert_items [] xs = Inr xs"
| "convert_items ((conv, i) # cs) xs = bind_e (convert_item conv i xs) (convert_items cs)"

definition enter_API :: "session \<Rightarrow> bool result" where
  "enter_API =
     bind open_port
       (\<lambda>opened. if opened = False then return_ok False
          else bind (send_command ''API'')
          (\<lambda>_. bind (wait_for_string ''OK'')
          (\<lambda>result. if result then bind (set_in_API True) (\<lambda>_. return_ok result)
                    else bind (set_in_API False) (\<lambda>_. return_ok result))))"

definition audio_in :: "session \<Rightarrow> (pyval \<times> bool) result" where
  "audio_in s =
     (if in_API s then
        bind (commmand_and_reply ''AUDIO IN'')
          (\<lambda>reply. return_ok (PStr reply, True)) s
      else return_ok (PStr ''ERR Not in API mode'', False) s)"

definition calibrate :: "session \<Rightarrow> (pyval \<times> bool) result" where
  "calibrate s =
     (if in_API s then
        bind (port_set_timeout 10)
          (\<lambda>_. bind (send_command ''CALIBRATE'')
          (\<lambda>_. bind (wait_for_string ''OK'')
          (\<lambda>reply. bind (port_set_timeout 1)
          (\<lambda>_. return_ok (PStr ''OK'', reply))))) s
      else return_ok (PStr ''ERR Not in API mode'', False) s)"

definition clear_stats :: "session \<Rightarrow> (pyval \<times> bool) result" where
  "clear_stats s =
     (if in_API s then
        bind (send_command ''CLEAR STATS'')
          (\<lambda>_. bind (wait_for_string ''OK'')
          (\<lambda>reply. return_ok (PStr ''OK'', reply))) s
      else return_ok (PStr ''ERR Not in API mode'', False) s)"

text \<open>The f-strings: the arguments of the setters stand for the text that formatting
  them gives (\<^verbatim>\<open>str(frames)\<close> and so on). \<open>CHR 0x22\<close> is the double quote.\<close>

definition custom_splash_1 :: "string \<Rightarrow> session \<Rightarrow> (pyval \<times> bool) result" where
  "custom_splash_1 message s =
     (if in_API s then
        bind (commmand_and_reply (''CUSTOM SPLASH 1 '' @ [CHR 0x22] @ message @ [CHR 0x22] @ '' ''))
          (\<lambda>reply. if \<not> str_in ''ERR'' reply then return_ok (PStr reply, True)
                   else return_ok (PStr reply, False)) s
      else return_ok (PStr ''ERR Not in API mode'', False) s)"

definition custom_splash_2 :: "string \<Rightarrow> session \<Rightarrow> (pyval \<times> bool) result" where
  "custom_splash_2 message s =
     (if in_API s then
        bind (commmand_and_reply (''CUSTOM SPLASH 2 '' @ [CHR 0x22] @ message @ [CHR 0x22] @ '' ''))
          (\<lambda>reply. if \<not> str_in ''ERR'' reply then return_ok (PStr reply, True)
                   else return_ok (PStr reply, False)) s
      else return_ok (PStr ''ERR Not in API mode'', False) s)"


definition extended_mode :: "session \<Rightarrow> (pyval \<times> bool) result" where
  "extended_mode s =
     (if in_API s then
        bind (commmand_and_reply ''EXTENDED MODE'')
          (\<lambda>reply. return_ok (PStr reply, True)) s
      else return_ok (PStr ''ERR Not in API mode'', False) s)"

definition frame_rate :: "session \<Rightarrow> (pyval \<times> bool) result" where
  "frame_rate s =
     (if in_API s then
        bind (commmand_and_reply ''FRAME RATE'')
          (\<lambda>reply. bind (lift_e (int_py (PStr reply)))
          (\<lambda>reply. return_ok (reply, True))) s
      else return_ok (PStr ''ERR Not in API mode'', False) s)"

definition mask_len :: "session \<Rightarrow> (pyval \<times> bool) result" where
  "mask_len s =
     (if in_API s then
        bind (commmand_and_reply ''MASK LEN'')
          (\<lambda>reply. bind (lift_e (int_py (PStr reply)))
          (\<lambda>reply. return_ok (reply, True))) s
      else return_ok (PStr ''ERR Not in API mode'', False) s)"

definition offset :: "session \<Rightarrow> (pyval \<times> bool) result" where
  "offset s =
     (if in_API s then
        bind (commmand_and_reply ''OFFSET'')
          (\<lambda>reply. bind (lift_e (float_py (PStr reply)))
          (\<lambda>reply. return_ok (reply, True))) s
      else return_ok (PStr ''ERR Not in API mode'', False) s)"

definition reset_settings :: "session \<Rightarrow> (pyval \<times> bool) result" where
  "reset_settings s =
     (if in_API s then
        bind (commmand_and_reply ''RESET SETTINGS'')
          (\<lambda>reply. return_ok (PStr ''OK'', True)) s
      else return_ok (PStr ''ERR Not in API mode'', False) s)"

definition set_audio_in :: "string \<Rightarrow> session \<Rightarrow> (pyval \<times> bool) result" where
  "set_audio_in audio_port s =
     (if in_API s then
        bind (commmand_and_reply (''SET AUDIO IN '' @ audio_port))
          (\<lambda>reply. if \<not> str_in ''ERR'' reply then return_ok (PStr reply, True)
                   else return_ok (PStr reply, False)) s
      else return_ok (PStr ''ERR Not in API mode'', False) s)"

definition set_audio_trigger_level :: "string \<Rightarrow> session \<Rightarrow> (pyval \<times> bool) result" where
  "set_audio_trigger_level trigger_level s =
     (if in_API s then
        bind (commmand_and_reply (''SET AUDIO TRIGGER LEVEL '' @ trigger_level))
          (\<lambda>reply. if \<not> str_in ''ERR'' reply then return_ok (PStr reply, True)
                   else return_ok (PStr reply, False)) s
      else return_ok (PStr ''ERR Not in API mode'', False) s)"

definition ser_extended_mode :: "string \<Rightarrow> session \<Rightarrow> (pyval \<times> bool) result" where
  "ser_extended_mode mode s =
     (if in_API s then
        bind (commmand_and_reply (''SET EXTENDED MODE '' @ mode))
          (\<lambda>reply. if \<not> str_in ''ERR'' reply then return_ok (PStr reply, True)
                   else return_ok (PStr reply, False)) s
      else return_ok (PStr ''ERR Not in API mode'', False) s)"

definition set_frame_rate :: "string \<Rightarrow> session \<Rightarrow> (pyval \<times> bool) result" where
  "set_frame_rate frames s =
     (if in_API s then
        bind (commmand_and_reply (''SET FRAME RATE '' @ frames))
          (\<lambda>reply. if \<not> str_in ''ERR'' reply then return_ok (PStr reply, True)
                   else return_ok (PStr reply, False)) s
      else return_ok (PStr ''ERR Not in API mode'', False) s)"

definition set_mask_len :: "string \<Rightarrow> session \<Rightarrow> (pyval \<times> bool) result" where
  "set_mask_len mask_text s =
     (if in_API s then
        bind (commmand_and_reply (''SET MASK LEN '' @ mask_text))
          (\<lambda>reply. if \<not> str_in ''ERR'' reply then return_ok (PStr reply, True)
                   else return_ok (PStr reply, False)) s
      else return_ok (PStr ''ERR Not in API mode'', False) s)"

definition set_offset :: "string \<Rightarrow> session \<Rightarrow> (pyval \<times> bool) result" where
  "set_offset offset_text s =
     (if in_API s then
        bind (commmand_and_reply (''SET OFFSET '' @ offset_text))
          (\<lambda>reply. if \<not> str_in ''ERR'' reply then return_ok (PStr reply, True)
                   else return_ok (PStr reply, False)) s
      else return_ok (PStr ''ERR Not in API mode'', False) s)"

definition set_speaker_dist :: "string \<Rightarrow> session \<Rightarrow> (pyval \<times> bool) result" where
  "set_speaker_dist distance s =
     (if in_API s then
        bind (commmand_and_reply (''SET SPEAKER DIST '' @ distance))
          (\<lambda>reply. if \<not> str_in ''ERR'' reply then return_ok (PStr reply, True)
                   else return_ok (PStr reply, False)) s
      else return_ok (PStr ''ERR Not in API mode'', False) s)"

definition set_video_trigger_level :: "string \<Rightarrow> session \<Rightarrow> (pyval \<times> bool) result" where
  "set_video_trigger_level trigger_level s =
     (if in_API s then
        bind (commmand_and_reply (''SET VIDEO TRIGGER LEVEL '' @ trigger_level))
          (\<lambda>reply. if \<not> str_in ''ERR'' reply then return_ok (PStr reply, True)
                   else return_ok (PStr reply, False)) s
      else return_ok (PStr ''ERR Not in API mode'', False) s)"

definition settings :: "session \<Rightarrow> (pyval \<times> bool) result" where
  "settings s =
     (if in_API s then
        bind (commmand_and_reply ''SETTINGS'')
          (\<lambda>reply. bind (lift_e (convert_items
                     [(int_py, 2), (int_py, 3), (float_py, 4), (int_py, 5),
                      (int_py, 7), (int_py, 8), (int_py, 9)]
                     (map PStr (split_comma reply))))
          (\<lambda>settings_data. return_ok (PList settings_data, True))) s
      else return_ok (PStr ''ERR Not in API mode'', False) s)"

definition speaker_dist :: "session \<Rightarrow> (pyval \<times> bool) result" where
  "speaker_dist s =
     (if in_API s then
        bind (commmand_and_reply ''SPEAKER DIST'')
          (\<lambda>reply. bind (lift_e (convert_items [(float_py, 0), (int_py, 1), (int_py, 2)]
                     (map PStr (split_comma reply))))
          (\<lambda>distance. return_ok (PList distance, True))) s
      else return_ok (PStr ''ERR Not in API mode'', False) s)"

definition support_code :: "session \<Rightarrow> (pyval \<times> bool) result" where
  "support_code s =
     (if in_API s then
        bind (commmand_and_reply ''SUPPORT CODE'')
          (\<lambda>reply. return_ok (PStr reply, True)) s
      else return_ok (PStr ''ERR Not in API mode'', False) s)"

definition start :: "session \<Rightarrow> (pyval \<times> bool) result" where
  "start s =
     (if in_API s then
        bind (port_set_timeout 10)
          (\<lambda>_. bind (commmand_and_reply ''START'')
          (\<lambda>reply. bind (wait_for_string ''START'')
          (\<lambda>_. bind (port_set_timeout 1)
          (\<lambda>_. if \<not> str_in ''ERR'' reply then return_ok (PStr reply, True)
               else return_ok (PStr reply, False))))) s
      else return_ok (PStr ''ERR Not in API mode'', False) s)"

definition start_nocal :: "session \<Rightarrow> (pyval \<times> bool) result" where
  "start_nocal s =
     (if in_API s then
        bind (commmand_and_reply ''START NOCAL'')
          (\<lambda>reply. bind (wait_for_string ''START'')
          (\<lambda>_. if \<not> str_in ''ERR'' reply then return_ok (PStr reply, True)
               else return_ok (PStr reply, False))) s
      else return_ok (PStr ''ERR Not in API mode'', False) s)"

text \<open>The two loops of \<^verbatim>\<open>stats\<close>: rows are read while the line read last is not
  empty; then, row by row, the items 0 to 5 are converted.\<close>

function read_table :: "pyval list list \<Rightarrow> string \<Rightarrow> session \<Rightarrow> (pyval list list) result" where
  "read_table stats_list read_line s =
     (if read_line \<noteq> [] then
        (case get_reply s of
           (Inl e, s') \<Rightarrow> (Inl e, s')
         | (Inr next_line, s') \<Rightarrow>
             read_table (stats_list @ [map PStr (split_comma read_line)]) next_line s')
      else return_ok stats_list s)"
  by pat_completeness auto
termination
  apply (relation "measure (\<lambda>(stats_list, read_line, s).
                     if read_line = [] then 0 else Suc (length (rx s)))")
   apply simp
  apply (auto simp: get_reply_def bind_def port_read_until_def return_ok_def raise_def log_def
      parse_line_def split: if_splits list.splits)
  done

fun convert_rows :: "pyval list list \<Rightarrow> error + pyval list list" where
  "convert_rows [] = Inr []"
| "convert_rows (row # rows) =
     bind_e (convert_items (map (\<lambda>col. (float_py, col)) [0..<6]) row)
       (\<lambda>r. bind_e (convert_rows rows) (\<lambda>rs. Inr (r # rs)))"

definition stats :: "session \<Rightarrow> (pyval \<times> bool) result" where
  "stats s =
     (if in_API s then
        bind (send_command ''STATS'')
          (\<lambda>_. bind get_reply
          (\<lambda>read_line.
             if \<not> str_in ''ERR'' read_line then
               bind (read_table [] read_line)
               (\<lambda>stats_list. bind (lift_e (convert_rows stats_list))
               (\<lambda>stats_list. return_ok (PList (map PList stats_list), True)))
             else return_ok (PStr read_line, False))) s
      else return_ok (PStr ''ERR Not in API mode'', False) s)"

definition stats_avg :: "session \<Rightarrow> (pyval \<times> bool) result" where
  "stats_avg s =
     (if in_API s then
        bind (commmand_and_reply ''STATS AVG'')
          (\<lambda>reply.
             if \<not> str_in ''ERR'' reply then
               bind (lift_e (convert_items [(int_py, 0), (float_py, 1)]
                       (map PStr (split_comma reply))))
               (\<lambda>fields. return_ok (PList fields, True))
             else return_ok (PStr reply, False)) s
      else return_ok (PStr ''ERR Not in API mode'', False) s)"

definition stats_count :: "session \<Rightarrow> (pyval \<times> bool) result" where
  "stats_count s =
     (if in_API s then
        bind (commmand_and_reply ''STATS COUNT'')
          (\<lambda>reply. bind (lift_e (int_py (PStr reply)))
          (\<lambda>reply. return_ok (reply, True))) s
      else return_ok (PStr ''ERR Not in API mode'', False) s)"

definition stats_span :: "session \<Rightarrow> (pyval \<times> bool) result" where
  "stats_span s =
     (if in_API s then
        bind (commmand_and_reply ''STATS SPAN'')
          (\<lambda>reply.
             if \<not> str_in ''ERR'' reply then
               bind (lift_e (convert_items [(int_py, 0), (float_py, 1)]
                       (map PStr (split_comma reply))))
               (\<lambda>fields. return_ok (PList fields, True))
             else return_ok (PStr reply, False)) s
      else return_ok (PStr ''ERR Not in API mode'', False) s)"

definition stats_trim :: "session \<Rightarrow> (pyval \<times> bool) result" where
  "stats_trim s =
     (if in_API s then
        bind (commmand_and_reply ''STATS TRIM'')
          (\<lambda>reply. if \<not> str_in ''ERR'' reply then return_ok (PStr reply, True)
                   else return_ok (PStr reply, False)) s
      else return_ok (PStr ''ERR Not in API mode'', False) s)"

definition stop :: "session \<Rightarrow> (pyval \<times> bool) result" where
  "stop s =
     (if in_API s then
        bind (send_command ''STOP'')
          (\<lambda>_. bind (wait_for_string ''OK'')
          (\<lambda>reply. return_ok (PStr ''OK'', True))) s
      else return_ok (PStr ''ERR Not in API mode'', False) s)"

definition get_reading :: "session \<Rightarrow> (pyval \<times> bool) result" where
  "get_reading s =
     (if in_API s then
        bind get_reply
          (\<lambda>reading.
             if reading \<noteq> [] then
               bind (lift_e (int_py (PStr reading)))
               (\<lambda>reading. return_ok (reading, True))
             else return_ok (PNone, False)) s
      else return_ok (PStr ''ERR Not in API mode'', False) s)"

section \<open>Properties\<close>

subsection \<open>Notions used in the statements\<close>

text \<open>A session as a successful \<^verbatim>\<open>enter_API\<close> leaves it: in API mode, the port open
  with read timeout 1; \<open>incoming\<close> is what the instrument will send.\<close>

definition api_session :: "string list \<Rightarrow> session" where
  "api_session incoming =
     \<lparr> serial_port = ''COM3'', in_API = True, has_port = True, port_open = True,
       timeout = 1, can_open = True, rx = incoming, trace = [] \<rparr>"

definition mode_error :: "pyval \<times> bool" where
  "mode_error = (PStr ''ERR Not in API mode'', False)"

text \<open>The reply that the read number \<open>i\<close> (from 0) gives: the text delivered with the
  carriage returns removed, and nothing once the instrument has stopped sending.\<close>

definition line_at :: "string list \<Rightarrow> nat \<Rightarrow> string" where
  "line_at incoming i = (if i < length incoming then parse_line (incoming ! i) else [])"

text \<open>The session after \<open>n\<close> reads at the current timeout: only \<open>rx\<close> and the trace
  differ.\<close>

definition after_reads :: "nat \<Rightarrow> session \<Rightarrow> session" where
  "after_reads n s = s\<lparr>rx := drop n (rx s), trace := trace s @ replicate n (EvRead (timeout s))\<rparr>"

text \<open>The session inside \<^verbatim>\<open>enter_API\<close> once the port is open and \<^verbatim>\<open>API\<close> is sent.\<close>

definition opened :: "string \<Rightarrow> string list \<Rightarrow> session" where
  "opened name incoming =
     \<lparr> serial_port = name, in_API = False, has_port = True, port_open = True,
        timeout = 1, can_open = True, rx = incoming,
        trace = [EvOpen True, EvResetInput, EvWrite (''API'' @ [CHR 0x0D])] \<rparr>"

text \<open>A reply that can be a row of the table: at least six comma-separated fields, the
  first six of them accepted by \<^verbatim>\<open>float\<close>.\<close>

definition numeric_row :: "string \<Rightarrow> bool" where
  "numeric_row r =
     (6 \<le> length (split_comma r) \<and> list_all (\<lambda>t. py_float t \<noteq> None) (take 6 (split_comma r)))"

text \<open>The row that \<^verbatim>\<open>stats\<close> makes of the fields \<open>fs\<close>: as many items, the first six
  the numbers that \<^verbatim>\<open>float\<close> reads from the fields, the others the fields as text.\<close>

definition row_converted :: "string list \<Rightarrow> pyval list \<Rightarrow> bool" where
  "row_converted fs row =
     (length row = length fs \<and>
      list_all (\<lambda>i. if i < 6 then map_option PFloat (py_float (fs ! i)) = Some (row ! i)
                     else row ! i = PStr (fs ! i)) [0..<length fs])"

subsection \<open>Reading and waiting\<close>

lemma str_in_Nil [simp]: "str_in [] r"
  by (cases r) simp_all

lemma line_at_drop: "line_at (drop n xs) i = line_at xs (n + i)"
  by (auto simp: line_at_def)

lemma after_reads_simps [simp]:
  "has_port (after_reads n s) = has_port s"
  "port_open (after_reads n s) = port_open s"
  "timeout (after_reads n s) = timeout s"
  "in_API (after_reads n s) = in_API s"
  "rx (after_reads n s) = drop n (rx s)"
  "trace (after_reads n s) = trace s @ replicate n (EvRead (timeout s))"
  "can_open (after_reads n s) = can_open s"
  "serial_port (after_reads n s) = serial_port s"
  by (simp_all add: after_reads_def)

lemma after_reads_0 [simp]: "after_reads 0 s = s"
  by (simp add: after_reads_def)

lemma after_reads_add: "after_reads m (after_reads n s) = after_reads (n + m) s"
  by (simp add: after_reads_def add.commute flip: replicate_add)

lemma get_reply_ok:
  assumes "has_port s" "port_open s"
  shows "get_reply s = (Inr (line_at (rx s) 0), after_reads 1 s)"
  using assms
  by (cases "rx s")
     (simp_all add: get_reply_def bind_def port_read_until_def return_ok_def log_def
        line_at_def after_reads_def parse_line_def)

lemma wait_loop_returns:
  assumes "has_port s" "port_open s"
  shows "\<exists>b n. wait_loop tok reply s = (Inr b, after_reads n s)"
  using assms
proof (induction tok reply s rule: wait_loop.induct)
  case (1 tok reply s)
  show ?case
  proof (cases "str_in tok reply")
    case True
    then have "wait_loop tok reply s = (Inr True, after_reads 0 s)"
      by (simp add: return_ok_def)
    then show ?thesis by blast
  next
    case False
    note g = get_reply_ok [OF "1.prems"]
    show ?thesis
    proof (cases "line_at (rx s) 0 = []")
      case True
      with False g have "wait_loop tok reply s = (Inr False, after_reads 1 s)"
        by (simp add: return_ok_def)
      then show ?thesis by blast
    next
      case nonempty: False
      from "1.IH" [OF False g [symmetric] refl nonempty] "1.prems"
      obtain b n where "wait_loop tok (line_at (rx s) 0) (after_reads 1 s) = (Inr b, after_reads n (after_reads 1 s))"
        by auto
      with False nonempty g have "wait_loop tok reply s = (Inr b, after_reads (1 + n) s)"
        by (simp add: after_reads_add)
      then show ?thesis by blast
    qed
  qed
qed

lemma str_in_empty_line: "\<not> str_in tok reply \<Longrightarrow> \<not> str_in tok []"
  by (cases tok) auto

lemma wait_loop_scan:
  assumes "has_port s" "port_open s" "\<not> str_in tok reply"
    and "str_in tok (line_at (rx s) k) \<or> line_at (rx s) k = []"
    and "\<forall>j<k. \<not> str_in tok (line_at (rx s) j) \<and> line_at (rx s) j \<noteq> []"
  shows "wait_loop tok reply s = (Inr (str_in tok (line_at (rx s) k)), after_reads (Suc k) s)"
  using assms
proof (induction k arbitrary: s reply)
  case 0
  note g = get_reply_ok [OF "0.prems"(1,2)]
  show ?case
  proof (cases "line_at (rx s) 0 = []")
    case True
    with "0.prems"(3) g str_in_empty_line [OF "0.prems"(3)] show ?thesis
      by (subst wait_loop.simps) (simp add: return_ok_def)
  next
    case False
    with "0.prems"(4) have hit: "str_in tok (line_at (rx s) 0)" by simp
    then have "wait_loop tok (line_at (rx s) 0) (after_reads 1 s) = (Inr True, after_reads 1 s)"
      by (subst wait_loop.simps) (simp add: return_ok_def)
    with False hit "0.prems"(3) g show ?thesis
      by (subst wait_loop.simps) simp
  qed
next
  case (Suc k)
  note g = get_reply_ok [OF Suc.prems(1,2)]
  from Suc.prems(5) have first: "\<not> str_in tok (line_at (rx s) 0)" "line_at (rx s) 0 \<noteq> []"
    by auto
  have "wait_loop tok (line_at (rx s) 0) (after_reads 1 s)
        = (Inr (str_in tok (line_at (rx (after_reads 1 s)) k)), after_reads (Suc k) (after_reads 1 s))"
  proof (rule Suc.IH)
    show "has_port (after_reads 1 s)" "port_open (after_reads 1 s)"
      using Suc.prems(1,2) by simp_all
    show "\<not> str_in tok (line_at (rx s) 0)" by (rule first)
    show "str_in tok (line_at (rx (after_reads 1 s)) k) \<or> line_at (rx (after_reads 1 s)) k = []"
      using Suc.prems(4) by (simp add: line_at_drop)
    show "\<forall>j<k. \<not> str_in tok (line_at (rx (after_reads 1 s)) j) \<and> line_at (rx (after_reads 1 s)) j \<noteq> []"
      using Suc.prems(5) by (simp add: line_at_drop)
  qed
  with first Suc.prems(3) g show ?case
    by (subst wait_loop.simps) (simp add: line_at_drop after_reads_add)
qed

lemma wait_for_string_scan:
  assumes "has_port s" "port_open s"
    and "str_in tok (line_at (rx s) k) \<or> (0 < k \<and> line_at (rx s) k = [])"
    and "\<forall>j<k. \<not> str_in tok (line_at (rx s) j) \<and> (0 < j \<longrightarrow> line_at (rx s) j \<noteq> [])"
  shows "wait_for_string tok s = (Inr (str_in tok (line_at (rx s) k)), after_reads (Suc k) s)"
proof (cases k)
  case 0
  with assms(3) have hit: "str_in tok (line_at (rx s) 0)" by simp
  then have "wait_loop tok (line_at (rx s) 0) (after_reads 1 s) = (Inr True, after_reads 1 s)"
    by (subst wait_loop.simps) (simp add: return_ok_def)
  with 0 hit show ?thesis
    by (simp add: wait_for_string_def bind_def get_reply_ok [OF assms(1,2)])
next
  case (Suc k')
  have "wait_loop tok (line_at (rx s) 0) (after_reads 1 s)
        = (Inr (str_in tok (line_at (rx (after_reads 1 s)) k')), after_reads (Suc k') (after_reads 1 s))"
  proof (rule wait_loop_scan)
    show "has_port (after_reads 1 s)" "port_open (after_reads 1 s)"
      using assms(1,2) by simp_all
    show "\<not> str_in tok (line_at (rx s) 0)" using assms(4) Suc by simp
    show "str_in tok (line_at (rx (after_reads 1 s)) k') \<or> line_at (rx (after_reads 1 s)) k' = []"
      using assms(3) Suc by (auto simp: line_at_drop)
    show "\<forall>j<k'. \<not> str_in tok (line_at (rx (after_reads 1 s)) j) \<and> line_at (rx (after_reads 1 s)) j \<noteq> []"
      using assms(4) Suc by (simp add: line_at_drop)
  qed
  with Suc show ?thesis
    by (simp add: wait_for_string_def bind_def get_reply_ok [OF assms(1,2)] line_at_drop
        after_reads_add)
qed

lemma wait_for_string_returns:
  assumes "has_port s" "port_open s"
  shows "\<exists>b n. wait_for_string tok s = (Inr b, after_reads (Suc n) s)"
proof -
  from wait_loop_returns [of "after_reads 1 s" tok "line_at (rx s) 0"] assms
  obtain b n where "wait_loop tok (line_at (rx s) 0) (after_reads 1 s) = (Inr b, after_reads n (after_reads 1 s))"
    by auto
  then have "wait_for_string tok s = (Inr b, after_reads (Suc n) s)"
    by (simp add: wait_for_string_def bind_def get_reply_ok [OF assms] after_reads_add)
  then show ?thesis by blast
qed

lemma send_command_ok:
  assumes "has_port s" "port_open s"
  shows "send_command cmd s = (Inr (), log (EvWrite (cmd @ [CHR 0x0D])) s)"
  using assms by (simp add: send_command_def port_write_def return_ok_def)

lemma log_simps [simp]:
  "has_port (log ev s) = has_port s"
  "port_open (log ev s) = port_open s"
  "timeout (log ev s) = timeout s"
  "in_API (log ev s) = in_API s"
  "rx (log ev s) = rx s"
  "trace (log ev s) = trace s @ [ev]"
  "can_open (log ev s) = can_open s"
  by (simp_all add: log_def)

lemma commmand_and_reply_ok:
  assumes "has_port s" "port_open s"
  shows "commmand_and_reply cmd s =
           (Inr (line_at (rx s) 0), after_reads 1 (log (EvWrite (cmd @ [CHR 0x0D])) s))"
  using assms by (simp add: commmand_and_reply_def bind_def send_command_ok get_reply_ok)

lemmas number_defs = py_int_def py_float_def floatnumber_def mantissa_def exponent_def
  decimal_to_double_def round_double_def div_half_even_def floor_log2_def bit_length.simps
  is_exp_mark_def to_lower_def to_ascii_def strip_def is_space_def split_sign_def digitpart_def
  is_digit_def digit_val_def Let_def

text \<open>The conversion rounds: \<^verbatim>\<open>0.1\<close> is no double, the integer \<open>2 ^ 53 + 1\<close> is a tie
  that goes to the even neighbour, and \<^verbatim>\<open>1e309\<close> is beyond the largest double. The four
  separators \<^verbatim>\<open>\x1c\<close> to \<^verbatim>\<open>\x1f\<close> are not stripped; the no-break space is.\<close>

lemma py_float_rounds:
  "py_float ''0.1'' = Some (Finite (3602879701896397 / 36028797018963968))"
  "py_float ''9007199254740993'' = Some (Finite 9007199254740992)"
  "py_float ''-0.0'' = Some NegZero"
  by (simp_all add: number_defs)

lemma py_float_overflows: "py_float ''1e309'' = Some (Infinite False)"
  by (simp add: number_defs)

lemma white_space_examples:
  "py_int (CHR 0x1C # ''12'') = None"
  "py_float (''7'' @ [CHR 0x1F]) = None"
  "py_int (CHR 0xA0 # ''12'') = Some 12"
  "py_int '' 12 '' = Some 12"
  by (simp_all add: number_defs)

lemma upt_6: "[0..<6] = [0, 1, 2, 3, 4, 5]"
  by (simp add: upt_rec)

lemma open_port_ok:
  "open_port (init name True incoming) =
     (Inr True, \<lparr> serial_port = name, in_API = False, has_port = True, port_open = True,
        timeout = 1, can_open = True, rx = incoming, trace = [EvOpen True, EvResetInput] \<rparr>)"
  by (simp add: open_port_def init_def return_ok_def log_def)

lemma enter_API_opened:
  "enter_API (init name True incoming) =
     (case wait_for_string ''OK'' (opened name incoming) of
        (Inl e, s') \<Rightarrow> (Inl e, s')
      | (Inr b, s') \<Rightarrow> (Inr b, s'\<lparr>in_API := b\<rparr>))"
  by (simp add: enter_API_def bind_def open_port_ok send_command_def port_write_def
      return_ok_def log_def opened_def set_in_API_def split: prod.splits sum.splits)




subsection \<open>Converting fields\<close>

lemma convert_items_append:
  "convert_items (as @ bs) xs = bind_e (convert_items as xs) (convert_items bs)"
  by (induction as arbitrary: xs) (auto simp: bind_e_def split: sum.splits)

lemma convert_floats:
  assumes "n \<le> length fs" "\<forall>i<n. py_float (fs ! i) \<noteq> None"
  shows "\<exists>row. convert_items (map (\<lambda>col. (float_py, col)) [0..<n]) (map PStr fs) = Inr row
           \<and> length row = length fs
           \<and> (\<forall>i<length fs. row ! i = (if i < n then PFloat (the (py_float (fs ! i))) else PStr (fs ! i)))"
  using assms
proof (induction n)
  case 0
  then show ?case by simp
next
  case (Suc n)
  then obtain row where row:
    "convert_items (map (\<lambda>col. (float_py, col)) [0..<n]) (map PStr fs) = Inr row"
    "length row = length fs"
    "\<forall>i<length fs. row ! i = (if i < n then PFloat (the (py_float (fs ! i))) else PStr (fs ! i))"
    by auto
  from Suc.prems have n: "n < length fs" by simp
  from Suc.prems obtain x where x: "py_float (fs ! n) = Some x" by auto
  from row(3) n have "row ! n = PStr (fs ! n)" by simp
  with n row(2) x have step: "convert_item float_py n row = Inr (row[n := PFloat x])"
    by (simp add: convert_item_def get_item_def set_item_def bind_e_def float_py_def)
  have "convert_items (map (\<lambda>col. (float_py, col)) [0..<Suc n]) (map PStr fs) = Inr (row[n := PFloat x])"
    using row(1) step by (simp add: convert_items_append bind_e_def)
  moreover have "length (row[n := PFloat x]) = length fs" using row(2) by simp
  moreover have "\<forall>i<length fs. (row[n := PFloat x]) ! i =
                   (if i < Suc n then PFloat (the (py_float (fs ! i))) else PStr (fs ! i))"
    using row(2,3) x by (auto simp: nth_list_update less_Suc_eq)
  ultimately show ?case by blast
qed

lemma numeric_row_converts:
  assumes "numeric_row r"
  shows "\<exists>row. convert_items (map (\<lambda>col. (float_py, col)) [0..<6]) (map PStr (split_comma r)) = Inr row
           \<and> row_converted (split_comma r) row"
proof -
  from assms have len: "6 \<le> length (split_comma r)"
    and ok: "\<forall>i<6. py_float (split_comma r ! i) \<noteq> None"
    by (auto simp: numeric_row_def list_all_length)
  from convert_floats [OF len ok] obtain row where row:
    "convert_items (map (\<lambda>col. (float_py, col)) [0..<6]) (map PStr (split_comma r)) = Inr row"
    "length row = length (split_comma r)"
    "\<forall>i<length (split_comma r). row ! i =
        (if i < 6 then PFloat (the (py_float (split_comma r ! i))) else PStr (split_comma r ! i))"
    by blast
  have "row_converted (split_comma r) row"
    unfolding row_converted_def list_all_length
  proof (intro conjI allI impI)
    show "length row = length (split_comma r)" by (rule row(2))
  next
    fix i assume "i < length [0..<length (split_comma r)]"
    then have i: "i < length (split_comma r)" by simp
    show "if [0..<length (split_comma r)] ! i < 6
          then map_option PFloat (py_float (split_comma r ! ([0..<length (split_comma r)] ! i)))
               = Some (row ! ([0..<length (split_comma r)] ! i))
          else row ! ([0..<length (split_comma r)] ! i) = PStr (split_comma r ! ([0..<length (split_comma r)] ! i))"
    proof (cases "i < 6")
      case True
      with ok obtain x where "py_float (split_comma r ! i) = Some x" by auto
      with True i row(3) show ?thesis by simp
    next
      case False
      with i row(3) show ?thesis by simp
    qed
  qed
  with row(1) show ?thesis by blast
qed

lemma numeric_row_nonempty: "numeric_row r \<Longrightarrow> r \<noteq> []"
  by (auto simp: numeric_row_def)





lemma split_comma_nonempty: "split_comma r \<noteq> []"
  by (induction r) (auto split: list.splits)



subsection \<open>Outside API mode\<close>

text \<open>
  Claim C2. Every public method other than \<^verbatim>\<open>enter_API\<close> and \<^verbatim>\<open>exit_API\<close>, called
  while \<^verbatim>\<open>__in_API\<close> is false, returns the text \<^verbatim>\<open>ERR Not in API mode\<close> with
  \<open>False\<close> and leaves the session exactly as it was: the trace of port calls is
  unchanged, so nothing was opened, written, read or closed.
\<close>

theorem not_in_API_no_io:
  assumes "\<not> in_API s"
  shows "audio_in s = (Inr mode_error, s)
     \<and> calibrate s = (Inr mode_error, s)
     \<and> clear_stats s = (Inr mode_error, s)
     \<and> custom_splash_1 a s = (Inr mode_error, s)
     \<and> custom_splash_2 a s = (Inr mode_error, s)
     \<and> extended_mode s = (Inr mode_error, s)
     \<and> frame_rate s = (Inr mode_error, s)
     \<and> mask_len s = (Inr mode_error, s)
     \<and> offset s = (Inr mode_error, s)
     \<and> reset_settings s = (Inr mode_error, s)
     \<and> set_audio_in a s = (Inr mode_error, s)
     \<and> set_audio_trigger_level a s = (Inr mode_error, s)
     \<and> ser_extended_mode a s = (Inr mode_error, s)
     \<and> set_frame_rate a s = (Inr mode_error, s)
     \<and> set_mask_len a s = (Inr mode_error, s)
     \<and> set_offset a s = (Inr mode_error, s)
     \<and> set_speaker_dist a s = (Inr mode_error, s)
     \<and> set_video_trigger_level a s = (Inr mode_error, s)
     \<and> settings s = (Inr mode_error, s)
     \<and> speaker_dist s = (Inr mode_error, s)
     \<and> support_code s = (Inr mode_error, s)
     \<and> start s = (Inr mode_error, s)
     \<and> start_nocal s = (Inr mode_error, s)
     \<and> stats s = (Inr mode_error, s)
     \<and> stats_avg s = (Inr mode_error, s)
     \<and> stats_count s = (Inr mode_error, s)
     \<and> stats_span s = (Inr mode_error, s)
     \<and> stats_trim s = (Inr mode_error, s)
     \<and> stop s = (Inr mode_error, s)
     \<and> get_reading s = (Inr mode_error, s)"
  using assms
  by (simp add: mode_error_def return_ok_def audio_in_def calibrate_def clear_stats_def custom_splash_1_def custom_splash_2_def extended_mode_def frame_rate_def mask_len_def offset_def reset_settings_def set_audio_in_def set_audio_trigger_level_def ser_extended_mode_def set_frame_rate_def set_mask_len_def set_offset_def set_speaker_dist_def set_video_trigger_level_def settings_def speaker_dist_def support_code_def start_def start_nocal_def stats_def stats_avg_def stats_count_def stats_span_def stats_trim_def stop_def get_reading_def)

theorem not_in_API_no_io_witness:
  "\<not> in_API (init [] True []) \<and> audio_in (init []  True []) = (Inr mode_error, init [] True [])
   \<and> calibrate (init []  True []) = (Inr mode_error, init [] True [])
   \<and> clear_stats (init []  True []) = (Inr mode_error, init [] True [])
   \<and> custom_splash_1 [] (init []  True []) = (Inr mode_error, init [] True [])
   \<and> custom_splash_2 [] (init []  True []) = (Inr mode_error, init [] True [])
   \<and> extended_mode (init []  True []) = (Inr mode_error, init [] True [])
   \<and> frame_rate (init []  True []) = (Inr mode_error, init [] True [])
   \<and> mask_len (init []  True []) = (Inr mode_error, init [] True [])
   \<and> offset (init []  True []) = (Inr mode_error, init [] True [])
   \<and> reset_settings (init []  True []) = (Inr mode_error, init [] True [])
   \<and> set_audio_in [] (init []  True []) = (Inr mode_error, init [] True [])
   \<and> set_audio_trigger_level [] (init []  True []) = (Inr mode_error, init [] True [])
   \<and> ser_extended_mode [] (init []  True []) = (Inr mode_error, init [] True [])
   \<and> set_frame_rate [] (init []  True []) = (Inr mode_error, init [] True [])
   \<and> set_mask_len [] (init []  True []) = (Inr mode_error, init [] True [])
   \<and> set_offset [] (init []  True []) = (Inr mode_error, init [] True [])
   \<and> set_speaker_dist [] (init []  True []) = (Inr mode_error, init [] True [])
   \<and> set_video_trigger_level [] (init []  True []) = (Inr mode_error, init [] True [])
   \<and> settings (init []  True []) = (Inr mode_error, init [] True [])
   \<and> speaker_dist (init []  True []) = (Inr mode_error, init [] True [])
   \<and> support_code (init []  True []) = (Inr mode_error, init [] True [])
   \<and> start (init []  True []) = (Inr mode_error, init [] True [])
   \<and> start_nocal (init []  True []) = (Inr mode_error, init [] True [])
   \<and> stats (init []  True []) = (Inr mode_error, init [] True [])
   \<and> stats_avg (init []  True []) = (Inr mode_error, init [] True [])
   \<and> stats_count (init []  True []) = (Inr mode_error, init [] True [])
   \<and> stats_span (init []  True []) = (Inr mode_error, init [] True [])
   \<and> stats_trim (init []  True []) = (Inr mode_error, init [] True [])
   \<and> stop (init []  True []) = (Inr mode_error, init [] True [])
   \<and> get_reading (init []  True []) = (Inr mode_error, init [] True [])"
  using not_in_API_no_io [of "init [] True []" "[]"]
  by (simp add: init_def)

subsection \<open>Entering and leaving API mode\<close>




text \<open>
  Claim C6, as amended. In \<^verbatim>\<open>enter_API\<close>, once the port is open and \<^verbatim>\<open>API\<close> is sent,
  replies are read one after the other. The scan stops at the first reply \<open>k\<close> that
  contains \<^verbatim>\<open>OK\<close>, or that is empty and is not the very first reply (\<open>0 < k\<close>); an
  empty first reply is read past. Exactly \<open>k + 1\<close> reads are made, and the call returns,
  and sets \<^verbatim>\<open>__in_API\<close> to, whether reply \<open>k\<close> contains \<^verbatim>\<open>OK\<close>.
\<close>

theorem enter_API_scan:
  assumes "str_in ''OK'' (line_at incoming k) \<or> (0 < k \<and> line_at incoming k = [])"
    and "\<forall>j<k. \<not> str_in ''OK'' (line_at incoming j) \<and> (0 < j \<longrightarrow> line_at incoming j \<noteq> [])"
  shows "fst (enter_API (init name True incoming)) = Inr (str_in ''OK'' (line_at incoming k))
       \<and> in_API (snd (enter_API (init name True incoming))) = str_in ''OK'' (line_at incoming k)
       \<and> rx (snd (enter_API (init name True incoming))) = drop (Suc k) incoming
       \<and> trace (snd (enter_API (init name True incoming))) =
           [EvOpen True, EvResetInput, EvWrite (''API'' @ [CHR 0x0D])] @ replicate (Suc k) (EvRead 1)"
proof -
  have "wait_for_string ''OK'' (opened name incoming) =
          (Inr (str_in ''OK'' (line_at (rx (opened name incoming)) k)), after_reads (Suc k) (opened name incoming))"
    by (rule wait_for_string_scan) (use assms in \<open>simp_all add: opened_def\<close>)
  then show ?thesis
    by (simp add: enter_API_opened) (simp add: opened_def)
qed

theorem enter_API_scan_witness:
  "fst (enter_API (init ''COM3'' True [''boot'' @ [CHR 0x0D], [], ''OK'' @ [CHR 0x0D]])) = Inr False
   \<and> rx (snd (enter_API (init ''COM3'' True [''boot'' @ [CHR 0x0D], [], ''OK'' @ [CHR 0x0D]]))) = [''OK'' @ [CHR 0x0D]]"
  using enter_API_scan [of "[''boot'' @ [CHR 0x0D], [], ''OK'' @ [CHR 0x0D]]" 1 "''COM3''"]
  by (simp add: line_at_def parse_line_def less_Suc_eq)

text \<open>The claim as stated fails on an empty first reply: the scan goes on and the
  acknowledgment that follows is accepted.\<close>

theorem enter_API_first_empty_counterexample:
  "line_at [[], ''OK'' @ [CHR 0x0D]] 0 = []
   \<and> fst (enter_API (init ''COM3'' True [[], ''OK'' @ [CHR 0x0D]])) = Inr True
   \<and> rx (snd (enter_API (init ''COM3'' True [[], ''OK'' @ [CHR 0x0D]]))) = []"
  by (simp add: enter_API_opened wait_for_string_def bind_def get_reply_def port_read_until_def
      return_ok_def log_def opened_def line_at_def parse_line_def)

subsection \<open>The widened read timeout\<close>

text \<open>
  Claim C5. In API mode with the port open and the read timeout at 1, \<^verbatim>\<open>calibrate\<close>
  and \<^verbatim>\<open>start\<close> always return; they set the timeout to 10 before the command is
  written, every read of the call is made at timeout 10, the last port call sets the
  timeout to 1, and the timeout is 1 when the method returns. This holds for every
  sequence of replies: acknowledgment, error reply or silence.
\<close>

theorem widened_timeout_restored:
  assumes "in_API s" "has_port s" "port_open s" "timeout s = 1"
  shows "(\<exists>b. fst (calibrate s) = Inr (PStr ''OK'', b))
       \<and> timeout (snd (calibrate s)) = 1
       \<and> (\<exists>n. trace (snd (calibrate s)) =
                trace s @ [EvSetTimeout 10, EvWrite (''CALIBRATE'' @ [CHR 0x0D])]
                  @ replicate (Suc n) (EvRead 10) @ [EvSetTimeout 1])
       \<and> (\<exists>v. fst (start s) = Inr v)
       \<and> timeout (snd (start s)) = 1
       \<and> (\<exists>n. trace (snd (start s)) =
                trace s @ [EvSetTimeout 10, EvWrite (''START'' @ [CHR 0x0D])]
                  @ replicate (Suc n) (EvRead 10) @ [EvSetTimeout 1])"
proof -
  let ?c = "log (EvWrite (''CALIBRATE'' @ [CHR 0x0D])) (log (EvSetTimeout 10) (s\<lparr>timeout := 10\<rparr>))"
  obtain b n where w: "wait_for_string ''OK'' ?c = (Inr b, after_reads (Suc n) ?c)"
    using wait_for_string_returns [of ?c "''OK''"] assms by auto
  have c: "calibrate s = (Inr (PStr ''OK'', b), log (EvSetTimeout 1) ((after_reads (Suc n) ?c)\<lparr>timeout := 1\<rparr>))"
    using assms w
    by (simp add: calibrate_def bind_def port_set_timeout_def send_command_ok return_ok_def)
  let ?t = "after_reads 1 (log (EvWrite (''START'' @ [CHR 0x0D])) (log (EvSetTimeout 10) (s\<lparr>timeout := 10\<rparr>)))"
  obtain b' m where w': "wait_for_string ''START'' ?t = (Inr b', after_reads (Suc m) ?t)"
    using wait_for_string_returns [of ?t "''START''"] assms by auto
  have t: "\<exists>v. start s = (Inr v, log (EvSetTimeout 1) ((after_reads (Suc m) ?t)\<lparr>timeout := 1\<rparr>))"
    using assms w'
    by (auto simp: start_def bind_def port_set_timeout_def commmand_and_reply_def send_command_ok
        get_reply_ok return_ok_def)
  from c have c1: "\<exists>b. fst (calibrate s) = Inr (PStr ''OK'', b)" by simp
  from c have c2: "timeout (snd (calibrate s)) = 1" by simp
  from c have c3: "\<exists>n. trace (snd (calibrate s)) =
                trace s @ [EvSetTimeout 10, EvWrite (''CALIBRATE'' @ [CHR 0x0D])]
                  @ replicate (Suc n) (EvRead 10) @ [EvSetTimeout 1]" by simp
  from t have t1: "\<exists>v. fst (start s) = Inr v" by auto
  from t have t2: "timeout (snd (start s)) = 1" by auto
  from t have "trace (snd (start s)) =
                trace s @ [EvSetTimeout 10, EvWrite (''START'' @ [CHR 0x0D])]
                  @ replicate (Suc (Suc m)) (EvRead 10) @ [EvSetTimeout 1]" by auto
  then have t3: "\<exists>n. trace (snd (start s)) =
                trace s @ [EvSetTimeout 10, EvWrite (''START'' @ [CHR 0x0D])]
                  @ replicate (Suc n) (EvRead 10) @ [EvSetTimeout 1]" by blast
  from c1 c2 c3 t1 t2 t3 show ?thesis by blast
qed

theorem widened_timeout_restored_witness:
  "in_API (api_session [''ERR 7'' @ [CHR 0x0D]]) \<and> has_port (api_session [''ERR 7'' @ [CHR 0x0D]])
   \<and> port_open (api_session [''ERR 7'' @ [CHR 0x0D]]) \<and> timeout (api_session [''ERR 7'' @ [CHR 0x0D]]) = 1
   \<and> timeout (snd (calibrate (api_session [''ERR 7'' @ [CHR 0x0D]]))) = 1
   \<and> timeout (snd (start (api_session [''ERR 7'' @ [CHR 0x0D]]))) = 1"
  using widened_timeout_restored [of "api_session [''ERR 7'' @ [CHR 0x0D]]"]
  by (simp add: api_session_def)

subsection \<open>Single readings\<close>

text \<open>
  Claim C9. In API mode with the port open, \<^verbatim>\<open>get_reading\<close> on a read that delivers
  nothing returns \<^verbatim>\<open>(None, False)\<close>: a normal return, no exception, and the only port
  call is that one read.
\<close>

theorem get_reading_timeout:
  assumes "in_API s" "has_port s" "port_open s" "line_at (rx s) 0 = []"
  shows "get_reading s = (Inr (PNone, False), after_reads 1 s)"
  using assms by (simp add: get_reading_def bind_def get_reply_ok return_ok_def)

theorem get_reading_timeout_witness:
  "in_API (api_session []) \<and> has_port (api_session []) \<and> port_open (api_session [])
   \<and> line_at (rx (api_session [])) 0 = []
   \<and> fst (get_reading (api_session [])) = Inr (PNone, False)"
  using get_reading_timeout [of "api_session []"]
  by (simp add: api_session_def line_at_def)

subsection \<open>Settings\<close>

text \<open>
  Claim C7. In API mode with the port open, \<^verbatim>\<open>settings\<close> on the reply
  \<^verbatim>\<open>SN123,2.2.4,60,0,1.5,5,AUTO,30,4,4\<close> returns, with \<open>True\<close>, the ten fields: the
  integers 60, 0, 5, 30, 4, 4 at positions 2, 3, 5, 7, 8, 9, the number 1.5 at position 4,
  and the texts \<^verbatim>\<open>SN123\<close>, \<^verbatim>\<open>2.2.4\<close>, \<^verbatim>\<open>AUTO\<close> unchanged at positions 0, 1, 6.
\<close>

theorem settings_example:
  assumes "in_API s" "has_port s" "port_open s"
    and "line_at (rx s) 0 = ''SN123,2.2.4,60,0,1.5,5,AUTO,30,4,4''"
  shows "settings s =
           (Inr (PList [PStr ''SN123'', PStr ''2.2.4'', PInt 60, PInt 0, PFloat (Finite (3 / 2)),
                        PInt 5, PStr ''AUTO'', PInt 30, PInt 4, PInt 4], True),
            after_reads 1 (log (EvWrite (''SETTINGS'' @ [CHR 0x0D])) s))"
proof -
  have "convert_items
          [(int_py, 2), (int_py, 3), (float_py, 4), (int_py, 5), (int_py, 7), (int_py, 8), (int_py, 9)]
          (map PStr (split_comma ''SN123,2.2.4,60,0,1.5,5,AUTO,30,4,4''))
        = Inr [PStr ''SN123'', PStr ''2.2.4'', PInt 60, PInt 0, PFloat (Finite (3 / 2)),
               PInt 5, PStr ''AUTO'', PInt 30, PInt 4, PInt 4]"
    by (simp add: convert_item_def get_item_def set_item_def bind_e_def int_py_def float_py_def
        number_defs)
  with assms show ?thesis
    by (simp add: settings_def bind_def commmand_and_reply_ok lift_e_def return_ok_def)
qed

theorem settings_example_witness:
  "fst (settings (api_session [''SN123,2.2.4,60,0,1.5,5,AUTO,30,4,4'' @ [CHR 0x0D]])) =
     Inr (PList [PStr ''SN123'', PStr ''2.2.4'', PInt 60, PInt 0, PFloat (Finite (3 / 2)),
                 PInt 5, PStr ''AUTO'', PInt 30, PInt 4, PInt 4], True)"
  using settings_example [of "api_session [''SN123,2.2.4,60,0,1.5,5,AUTO,30,4,4'' @ [CHR 0x0D]]"]
  by (simp add: api_session_def line_at_def parse_line_def)

subsection \<open>Status-only commands\<close>

text \<open>
  Claim C3 at the reply \<^verbatim>\<open>ERR 12\<close>. The claim asks for \<open>False\<close> together with the
  reply text. \<^verbatim>\<open>stats_trim\<close> does that. \<^verbatim>\<open>reset_settings\<close> and \<^verbatim>\<open>stop\<close> return
  \<^verbatim>\<open>("OK", True)\<close>, and \<^verbatim>\<open>clear_stats\<close> returns \<^verbatim>\<open>("OK", False)\<close>.
\<close>

theorem status_only_ERR_reply:
  "fst (reset_settings (api_session [''ERR 12'' @ [CHR 0x0D]])) = Inr (PStr ''OK'', True)
   \<and> fst (stop (api_session [''ERR 12'' @ [CHR 0x0D]])) = Inr (PStr ''OK'', True)
   \<and> fst (clear_stats (api_session [''ERR 12'' @ [CHR 0x0D]])) = Inr (PStr ''OK'', False)
   \<and> fst (stats_trim (api_session [''ERR 12'' @ [CHR 0x0D]])) = Inr (PStr ''ERR 12'', False)"
  by (simp add: reset_settings_def stop_def clear_stats_def stats_trim_def api_session_def
      commmand_and_reply_def send_command_def port_write_def wait_for_string_def bind_def
      get_reply_def port_read_until_def return_ok_def log_def parse_line_def)

subsection \<open>The table of readings\<close>

text \<open>
  Claim C4, as amended. In API mode with the port open, when the first reply to
  \<^verbatim>\<open>STATS\<close> contains \<^verbatim>\<open>ERR\<close>, \<^verbatim>\<open>stats\<close> stops reading there: it returns that
  reply as text with \<open>False\<close>, no rows, after exactly one read. Replies after the first
  are not looked at for the marker.
\<close>

theorem stats_first_line_ERR:
  assumes "in_API s" "has_port s" "port_open s" "str_in ''ERR'' (line_at (rx s) 0)"
  shows "stats s = (Inr (PStr (line_at (rx s) 0), False),
                    after_reads 1 (log (EvWrite (''STATS'' @ [CHR 0x0D])) s))"
  using assms by (simp add: stats_def bind_def send_command_ok get_reply_ok return_ok_def)

theorem stats_first_line_ERR_witness:
  "str_in ''ERR'' (line_at (rx (api_session [''ERR 5'' @ [CHR 0x0D], ''1,2,3,4,5,6'' @ [CHR 0x0D]])) 0)
   \<and> stats (api_session [''ERR 5'' @ [CHR 0x0D], ''1,2,3,4,5,6'' @ [CHR 0x0D]]) =
       (Inr (PStr ''ERR 5'', False),
        after_reads 1 (log (EvWrite (''STATS'' @ [CHR 0x0D]))
          (api_session [''ERR 5'' @ [CHR 0x0D], ''1,2,3,4,5,6'' @ [CHR 0x0D]])))"
  using stats_first_line_ERR [of "api_session [''ERR 5'' @ [CHR 0x0D], ''1,2,3,4,5,6'' @ [CHR 0x0D]]"]
  by (simp add: api_session_def line_at_def parse_line_def)

text \<open>The claim as stated fails for a marker after the first reply. With \<^verbatim>\<open>ERR 5\<close> as
  the second reply the read goes on to the end of the input and the conversion raises
  \<^verbatim>\<open>ValueError\<close>; with the marker in a flag column of a second row, two rows come back
  with \<open>True\<close>.\<close>

theorem stats_later_ERR_counterexample:
  "str_in ''ERR'' (line_at [''1,2,3,4,5,6,E,S,O'' @ [CHR 0x0D], ''ERR 5'' @ [CHR 0x0D], ''7,8,9,1,2,3'' @ [CHR 0x0D]] 1)
   \<and> fst (stats (api_session [''1,2,3,4,5,6,E,S,O'' @ [CHR 0x0D], ''ERR 5'' @ [CHR 0x0D], ''7,8,9,1,2,3'' @ [CHR 0x0D]]))
       = Inl ValueError
   \<and> rx (snd (stats (api_session [''1,2,3,4,5,6,E,S,O'' @ [CHR 0x0D], ''ERR 5'' @ [CHR 0x0D], ''7,8,9,1,2,3'' @ [CHR 0x0D]]))) = []
   \<and> str_in ''ERR'' (line_at [''1,2,3,4,5,6,E,S,O'' @ [CHR 0x0D], ''1,2,3,4,5,6,ERR'' @ [CHR 0x0D]] 1)
   \<and> fst (stats (api_session [''1,2,3,4,5,6,E,S,O'' @ [CHR 0x0D], ''1,2,3,4,5,6,ERR'' @ [CHR 0x0D]]))
       = Inr (PList
               [PList [PFloat (Finite 1), PFloat (Finite 2), PFloat (Finite 3), PFloat (Finite 4),
                       PFloat (Finite 5), PFloat (Finite 6), PStr ''E'', PStr ''S'', PStr ''O''],
                PList [PFloat (Finite 1), PFloat (Finite 2), PFloat (Finite 3), PFloat (Finite 4),
                       PFloat (Finite 5), PFloat (Finite 6), PStr ''ERR'']], True)"
  by (simp add: stats_def api_session_def send_command_def port_write_def bind_def
      get_reply_def port_read_until_def return_ok_def log_def parse_line_def line_at_def
      lift_e_def raise_def convert_item_def get_item_def set_item_def bind_e_def float_py_def
      upt_6 number_defs)

text \<open>
  Claim C8, as amended. In API mode with the port open, when the first three replies to
  \<^verbatim>\<open>STATS\<close> are two lines that each have at least six comma-separated fields, the
  first six accepted by \<^verbatim>\<open>float\<close>, the first line without \<^verbatim>\<open>ERR\<close> in it, and then
  an empty line, \<^verbatim>\<open>stats\<close> returns \<open>True\<close> with exactly two rows. In each row the
  first six items are the floats read from the fields and the remaining items are the
  fields as text. Three reads were made.
\<close>

theorem stats_two_rows:
  assumes "in_API s" "has_port s" "port_open s"
    and "\<not> str_in ''ERR'' (line_at (rx s) 0)"
    and "numeric_row (line_at (rx s) 0)" "numeric_row (line_at (rx s) 1)"
    and "line_at (rx s) 2 = []"
  shows "\<exists>row1 row2.
           fst (stats s) = Inr (PList [PList row1, PList row2], True)
           \<and> row_converted (split_comma (line_at (rx s) 0)) row1
           \<and> row_converted (split_comma (line_at (rx s) 1)) row2
           \<and> rx (snd (stats s)) = drop 3 (rx s)"
proof -
  let ?r1 = "line_at (rx s) 0" and ?r2 = "line_at (rx s) 1"
  let ?s0 = "log (EvWrite (''STATS'' @ [CHR 0x0D])) s"
  have p0: "has_port ?s0" "port_open ?s0" using assms(2,3) by simp_all
  have g1: "get_reply ?s0 = (Inr ?r1, after_reads 1 ?s0)"
    using get_reply_ok [OF p0] by simp
  have g2: "get_reply (after_reads 1 ?s0) = (Inr ?r2, after_reads 2 ?s0)"
    using get_reply_ok [of "after_reads 1 ?s0"] p0
    by (simp add: line_at_drop after_reads_add numeral_2_eq_2)
  have g3: "get_reply (after_reads 2 ?s0) = (Inr [], after_reads 3 ?s0)"
    using get_reply_ok [of "after_reads 2 ?s0"] p0 assms(7)
    by (simp add: line_at_drop after_reads_add numeral_2_eq_2 numeral_3_eq_3)
  have ne: "?r1 \<noteq> []" "?r2 \<noteq> []"
    using assms(5,6) by (simp_all add: numeric_row_nonempty)
  have t3: "read_table [map PStr (split_comma ?r1), map PStr (split_comma ?r2)] [] (after_reads 3 ?s0)
            = (Inr [map PStr (split_comma ?r1), map PStr (split_comma ?r2)], after_reads 3 ?s0)"
    by (subst read_table.simps) (simp add: return_ok_def)
  have t2: "read_table [map PStr (split_comma ?r1)] ?r2 (after_reads 2 ?s0)
            = (Inr [map PStr (split_comma ?r1), map PStr (split_comma ?r2)], after_reads 3 ?s0)"
    using ne(2) g3 t3 by (subst read_table.simps) simp
  have t1: "read_table [] ?r1 (after_reads 1 ?s0)
            = (Inr [map PStr (split_comma ?r1), map PStr (split_comma ?r2)], after_reads 3 ?s0)"
    using ne(1) g2 t2 by (subst read_table.simps) simp
  from numeric_row_converts [OF assms(5)] obtain row1 where row1:
    "convert_items (map (\<lambda>col. (float_py, col)) [0..<6]) (map PStr (split_comma ?r1)) = Inr row1"
    "row_converted (split_comma ?r1) row1" by blast
  from numeric_row_converts [OF assms(6)] obtain row2 where row2:
    "convert_items (map (\<lambda>col. (float_py, col)) [0..<6]) (map PStr (split_comma ?r2)) = Inr row2"
    "row_converted (split_comma ?r2) row2" by blast
  have conv: "convert_rows [map PStr (split_comma ?r1), map PStr (split_comma ?r2)] = Inr [row1, row2]"
    using row1(1) row2(1) by (simp add: bind_e_def)
  have "stats s = (Inr (PList [PList row1, PList row2], True), after_reads 3 ?s0)"
    using assms(1-4) g1 t1 conv
    by (simp add: stats_def bind_def send_command_ok lift_e_def return_ok_def)
  with row1(2) row2(2) show ?thesis by auto
qed

theorem stats_two_rows_witness:
  "fst (stats (api_session [''12,0.5,11,0.25,3,0.125,E,S,O'' @ [CHR 0x0D], ''-8,-0.75,10,0.5,20,1.5,,,'' @ [CHR 0x0D], [CHR 0x0D]]))
    = Inr (PList
            [PList [PFloat (Finite 12), PFloat (Finite (1 / 2)), PFloat (Finite 11),
                    PFloat (Finite (1 / 4)), PFloat (Finite 3), PFloat (Finite (1 / 8)),
                    PStr ''E'', PStr ''S'', PStr ''O''],
             PList [PFloat (Finite (- 8)), PFloat (Finite (- (3 / 4))), PFloat (Finite 10),
                    PFloat (Finite (1 / 2)), PFloat (Finite 20), PFloat (Finite (3 / 2)),
                    PStr [], PStr [], PStr []]], True)"
proof -
  let ?s = "api_session [''12,0.5,11,0.25,3,0.125,E,S,O'' @ [CHR 0x0D], ''-8,-0.75,10,0.5,20,1.5,,,'' @ [CHR 0x0D], [CHR 0x0D]]"
  have f: "py_float ''12'' = Some (Finite 12)" "py_float ''0.5'' = Some (Finite (1 / 2))"
    "py_float ''11'' = Some (Finite 11)" "py_float ''0.25'' = Some (Finite (1 / 4))"
    "py_float ''3'' = Some (Finite 3)" "py_float ''0.125'' = Some (Finite (1 / 8))"
    "py_float ''-8'' = Some (Finite (- 8))" "py_float ''-0.75'' = Some (Finite (- (3 / 4)))"
    "py_float ''10'' = Some (Finite 10)" "py_float ''20'' = Some (Finite 20)"
    "py_float ''1.5'' = Some (Finite (3 / 2))"
    by (simp_all add: number_defs)
  have l: "line_at (rx ?s) 0 = ''12,0.5,11,0.25,3,0.125,E,S,O''"
    "line_at (rx ?s) 1 = ''-8,-0.75,10,0.5,20,1.5,,,''"
    "line_at (rx ?s) 2 = []"
    by (simp_all add: api_session_def line_at_def parse_line_def)
  have c: "split_comma ''12,0.5,11,0.25,3,0.125,E,S,O''
             = [''12'', ''0.5'', ''11'', ''0.25'', ''3'', ''0.125'', ''E'', ''S'', ''O'']"
    "split_comma ''-8,-0.75,10,0.5,20,1.5,,,''
             = [''-8'', ''-0.75'', ''10'', ''0.5'', ''20'', ''1.5'', [], [], []]"
    by simp_all
  have u: "[0..<9] = [0, 1, 2, 3, 4, 5, 6, 7, 8]"
    by (simp add: upt_rec)
  have h: "in_API ?s" "has_port ?s" "port_open ?s"
    "\<not> str_in ''ERR'' (line_at (rx ?s) 0)"
    "numeric_row (line_at (rx ?s) 0)" "numeric_row (line_at (rx ?s) 1)"
    "line_at (rx ?s) 2 = []"
    unfolding l by (simp_all add: api_session_def numeric_row_def c f)
  from stats_two_rows [OF h] obtain row1 row2 where
    r: "fst (stats ?s) = Inr (PList [PList row1, PList row2], True)"
      "row_converted (split_comma (line_at (rx ?s) 0)) row1"
      "row_converted (split_comma (line_at (rx ?s) 1)) row2" by blast
  from r(2) have "length row1 = 9 \<and> row1 ! 0 = PFloat (Finite 12) \<and> row1 ! 1 = PFloat (Finite (1 / 2))
      \<and> row1 ! 2 = PFloat (Finite 11) \<and> row1 ! 3 = PFloat (Finite (1 / 4))
      \<and> row1 ! 4 = PFloat (Finite 3) \<and> row1 ! 5 = PFloat (Finite (1 / 8))
      \<and> row1 ! 6 = PStr ''E'' \<and> row1 ! 7 = PStr ''S'' \<and> row1 ! 8 = PStr ''O''"
    unfolding l by (simp add: row_converted_def c u f) (simp add: eval_nat_numeral)
  then have r1: "row1 = [PFloat (Finite 12), PFloat (Finite (1 / 2)), PFloat (Finite 11),
                    PFloat (Finite (1 / 4)), PFloat (Finite 3), PFloat (Finite (1 / 8)),
                    PStr ''E'', PStr ''S'', PStr ''O'']"
    by (intro nth_equalityI) (auto simp: less_Suc_eq eval_nat_numeral)
  from r(3) have "length row2 = 9 \<and> row2 ! 0 = PFloat (Finite (- 8))
      \<and> row2 ! 1 = PFloat (Finite (- (3 / 4)))
      \<and> row2 ! 2 = PFloat (Finite 10) \<and> row2 ! 3 = PFloat (Finite (1 / 2))
      \<and> row2 ! 4 = PFloat (Finite 20) \<and> row2 ! 5 = PFloat (Finite (3 / 2))
      \<and> row2 ! 6 = PStr [] \<and> row2 ! 7 = PStr [] \<and> row2 ! 8 = PStr []"
    unfolding l by (simp add: row_converted_def c u f) (simp add: eval_nat_numeral)
  then have r2: "row2 = [PFloat (Finite (- 8)), PFloat (Finite (- (3 / 4))), PFloat (Finite 10),
                    PFloat (Finite (1 / 2)), PFloat (Finite 20), PFloat (Finite (3 / 2)),
                    PStr [], PStr [], PStr []]"
    by (intro nth_equalityI) (auto simp: less_Suc_eq eval_nat_numeral)
  from r(1) r1 r2 show ?thesis by simp
qed

text \<open>The claim as stated, for any two non-empty comma-delimited lines, fails: with text
  in a numeric column the conversion raises \<^verbatim>\<open>ValueError\<close>, with fewer than six fields
  it raises \<^verbatim>\<open>IndexError\<close>, and with \<^verbatim>\<open>ERR\<close> in a flag column of the first line the
  line comes back as text with \<open>False\<close>.\<close>

theorem stats_two_lines_counterexample:
  "fst (stats (api_session [''a,b'' @ [CHR 0x0D], ''c,d'' @ [CHR 0x0D], [CHR 0x0D]])) = Inl ValueError
   \<and> fst (stats (api_session [''1,2'' @ [CHR 0x0D], ''3,4'' @ [CHR 0x0D], [CHR 0x0D]])) = Inl IndexError
   \<and> fst (stats (api_session [''1,2,3,4,5,6,ERR'' @ [CHR 0x0D], ''1,2,3,4,5,6,E'' @ [CHR 0x0D],
                                [CHR 0x0D]]))
       = Inr (PStr ''1,2,3,4,5,6,ERR'', False)"
  by (simp add: stats_def api_session_def send_command_def port_write_def bind_def
      get_reply_def port_read_until_def return_ok_def log_def parse_line_def
      lift_e_def raise_def convert_item_def get_item_def set_item_def bind_e_def float_py_def
      upt_6 number_defs)

subsection \<open>Malformed numbers\<close>




end
